theory Spec2Isabelle
  imports Main "HOL-Library.Sublist"
begin

section \<open>Python strings\<close>

text \<open>
  A Python \<open>str\<close> is modelled as a \<open>string\<close> whose characters are code points below 256.
  Every string literal of \<open>health_check.py\<close> is ASCII; on this range \<open>str.strip\<close>,
  \<open>str.lower\<close> and the \<open>in\<close> operator are exactly the functions below.
\<close>

definition is_space :: "char \<Rightarrow> bool" where
  "is_space c =
     (let n = (of_char c :: nat)
      in (9 \<le> n \<and> n \<le> 13) \<or> (28 \<le> n \<and> n \<le> 32) \<or> n = 133 \<or> n = 160)"

definition strip :: "string \<Rightarrow> string" where
  "strip s = rev (dropWhile is_space (rev (dropWhile is_space s)))"

definition lower_char :: "char \<Rightarrow> char" where
  "lower_char c =
     (let n = (of_char c :: nat)
      in if (65 \<le> n \<and> n \<le> 90) \<or> (192 \<le> n \<and> n \<le> 222 \<and> n \<noteq> 215)
         then char_of (n + 32) else c)"

definition lower :: "string \<Rightarrow> string" where
  "lower s = map lower_char s"

definition str_in :: "string \<Rightarrow> string \<Rightarrow> bool" where
  "str_in sub s = sublist sub s"

fun join :: "string \<Rightarrow> string list \<Rightarrow> string" where
  "join sep [] = []"
| "join sep [x] = x"
| "join sep (x # y # ys) = x @ sep @ join sep (y # ys)"

text \<open>\<open>a or b\<close> on strings: the left operand when it is truthy (non-empty).\<close>

definition py_or :: "string \<Rightarrow> string \<Rightarrow> string" where
  "py_or a b = (if a \<noteq> [] then a else b)"

text \<open>Decimal rendering of an integer, as an f-string prints it.\<close>

fun str_of_nat :: "nat \<Rightarrow> string" where
  "str_of_nat n =
     (if n < 10 then [char_of (48 + n)]
      else str_of_nat (n div 10) @ [char_of (48 + n mod 10)])"

declare str_of_nat.simps [simp del]

definition str_of_int :: "int \<Rightarrow> string" where
  "str_of_int i = (if i < 0 then CHR ''-'' # str_of_nat (nat (- i)) else str_of_nat (nat i))"

text \<open>Tuple comparison \<open>a >= b\<close> on tuples of integers: lexicographic, a proper prefix is smaller.\<close>

fun tuple_ge :: "int list \<Rightarrow> int list \<Rightarrow> bool" where
  "tuple_ge _ [] = True"
| "tuple_ge [] (y # ys) = False"
| "tuple_ge (x # xs) (y # ys) = (if x = y then tuple_ge xs ys else y < x)"

section \<open>Exceptions\<close>

text \<open>
  The exception classes that the handlers of the program name, and the library classes
  raised by the calls it makes, with their ancestors up to \<open>Exception\<close>. The faults of the
  environment are instances of these classes. \<open>KeyboardInterrupt\<close> and \<open>SystemExit\<close>, which
  ask the interpreter to stop and derive from \<open>BaseException\<close> only, are not outcomes of a
  probe and are outside the model.
\<close>

datatype py_class =
    Exception
  | OSError | FileNotFoundError | PermissionError
  | URLError | HTTPError
  | SubprocessError | TimeoutExpired
  | ImportError | ModuleNotFoundError
  | LookupError | IndexError
  | ValueError
  | SqliteError | DatabaseError | OperationalError

text \<open>The method resolution order of a class: the class itself, then its ancestors.\<close>

fun mro :: "py_class \<Rightarrow> py_class list" where
  "mro Exception = [Exception]"
| "mro OSError = [OSError, Exception]"
| "mro FileNotFoundError = [FileNotFoundError, OSError, Exception]"
| "mro PermissionError = [PermissionError, OSError, Exception]"
| "mro URLError = [URLError, OSError, Exception]"
| "mro HTTPError = [HTTPError, URLError, OSError, Exception]"
| "mro SubprocessError = [SubprocessError, Exception]"
| "mro TimeoutExpired = [TimeoutExpired, SubprocessError, Exception]"
| "mro ImportError = [ImportError, Exception]"
| "mro ModuleNotFoundError = [ModuleNotFoundError, ImportError, Exception]"
| "mro LookupError = [LookupError, Exception]"
| "mro IndexError = [IndexError, LookupError, Exception]"
| "mro ValueError = [ValueError, Exception]"
| "mro SqliteError = [SqliteError, Exception]"
| "mro DatabaseError = [DatabaseError, SqliteError, Exception]"
| "mro OperationalError = [OperationalError, DatabaseError, SqliteError, Exception]"

text \<open>
  An exception object: its class, \<open>str(exc)\<close>, and the attributes \<open>code\<close> and \<open>reason\<close>
  (as an f-string renders it) that the HTTP handlers read.
\<close>

record py_exc =
  exc_class :: py_class
  exc_str :: string
  exc_code :: int
  exc_reason :: string

definition isinstance :: "py_exc \<Rightarrow> py_class \<Rightarrow> bool" where
  "isinstance e c = (c \<in> set (mro (exc_class e)))"

text \<open>
  \<open>try: body except C1 as exc: h1 except C2 as exc: h2 ...\<close>: the first handler whose class
  the exception is an instance of runs; with no such handler the exception propagates.
\<close>

fun handle :: "(py_class \<times> (py_exc \<Rightarrow> py_exc + 'a)) list \<Rightarrow> py_exc \<Rightarrow> py_exc + 'a" where
  "handle [] e = Inl e"
| "handle ((c, h) # hs) e = (if isinstance e c then h e else handle hs e)"

definition try_except ::
  "py_exc + 'a \<Rightarrow> (py_class \<times> (py_exc \<Rightarrow> py_exc + 'a)) list \<Rightarrow> py_exc + 'a" where
  "try_except body hs = (case body of Inr v \<Rightarrow> Inr v | Inl e \<Rightarrow> handle hs e)"

text \<open>Sequencing of two fallible steps: the second runs only when the first returns.\<close>

definition and_then :: "py_exc + 'a \<Rightarrow> ('a \<Rightarrow> py_exc + 'b) \<Rightarrow> py_exc + 'b" where
  "and_then m f = (case m of Inl e \<Rightarrow> Inl e | Inr v \<Rightarrow> f v)"

section \<open>The environment\<close>

text \<open>
  What the program reads from outside: the interpreter's version, and the outcome of each
  library call it makes (a returned object, or a raised exception). The calls are the ones
  the source writes: \<open>import_module\<close>, \<open>subprocess.run\<close>, \<open>urlopen\<close> and \<open>read\<close>,
  \<open>sqlite3.connect\<close>, \<open>execute\<close> and \<open>fetchone\<close>. Leaving a \<open>with\<close> block (closing the
  response, committing the transaction of the in-memory database) is taken to return.

  \<open>version_attr\<close> is the \<open>__version__\<close> attribute of a module as an f-string renders it, when
  the module has one. With \<open>capture_output=True\<close> and \<open>text=True\<close> the captured streams of a
  completed process are strings. \<open>read_decoded\<close> is \<open>resp.read().decode("utf-8",
  errors="ignore")\<close>. A row is the tuple that \<open>fetchone\<close> returns.
\<close>

record py_module =
  version_attr :: "string option"

record completed_process =
  returncode :: int
  stdout :: string
  stderr :: string

record http_response =
  status :: int
  reason :: string
  read_decoded :: "py_exc + string"

datatype sql_value = SqlNull | SqlInteger int | SqlText string | SqlBlob string

record cursor =
  fetchone :: "py_exc + sql_value list option"

record connection =
  execute :: "string \<Rightarrow> sql_value list \<Rightarrow> py_exc + cursor"

record environment =
  version_info :: "int \<times> int \<times> int"
  python_version :: string
  import_module :: "string \<Rightarrow> py_exc + py_module"
  subprocess_run :: "string list \<Rightarrow> py_exc + completed_process"
  urlopen :: "string \<Rightarrow> py_exc + http_response"
  sqlite_connect :: "string \<Rightarrow> py_exc + connection"

section \<open>The checks\<close>

text \<open>A Result is the dictionary \<open>{"name": ..., "status": ..., "details": ...}\<close>, in key order.\<close>

type_synonym result = "(string \<times> string) list"

definition format_result :: "string \<Rightarrow> bool \<Rightarrow> string \<Rightarrow> result" where
  "format_result name ok details =
     [(''name'', name), (''status'', if ok then ''ok'' else ''error''), (''details'', details)]"

definition field :: "result \<Rightarrow> string \<Rightarrow> string option" where
  "field r k = map_of r k"

definition check_python :: "environment \<Rightarrow> py_exc + result" where
  "check_python env =
     (let (major, minor, micro) = version_info env;
          version_str = python_version env;
          ok = tuple_ge [major, minor, micro] [3, 9];
          details = ''Python '' @ version_str @ '' detected'';
          details = (if \<not> ok then details @ '' (requires >= 3.9)'' else details)
      in Inr (format_result ''python'' ok details))"

definition check_import :: "environment \<Rightarrow> string \<Rightarrow> string option \<Rightarrow> py_exc + result" where
  "check_import env module_name display_name =
     (let display = (case display_name of None \<Rightarrow> module_name | Some d \<Rightarrow> py_or d module_name)
      in try_except
           (and_then (import_module env module_name) (\<lambda>module.
              let version = (case version_attr module of None \<Rightarrow> ''unknown'' | Some v \<Rightarrow> v)
              in Inr (format_result display True (''Import OK (version: '' @ version @ '')''))))
           [(Exception, \<lambda>exc.
              Inr (format_result display False (''Import failed: '' @ exc_str exc)))])"

definition run_ollama_cmd :: "environment \<Rightarrow> string list \<Rightarrow> py_exc + completed_process" where
  "run_ollama_cmd env args = subprocess_run env (''ollama'' # args)"

definition probe_url :: string where
  "probe_url = ''http://localhost:11434/api/version''"

definition probe_ollama_http :: "environment \<Rightarrow> py_exc + result" where
  "probe_ollama_http env =
     try_except
       (and_then (urlopen env probe_url) (\<lambda>resp.
          and_then (read_decoded resp) (\<lambda>body.
            Inr (format_result ''ollama_http'' True
                   (''HTTP '' @ str_of_int (status resp) @ '' '' @ reason resp
                      @ '' @ /api/version: '' @ py_or (strip body) ''OK'')))))
       [(HTTPError, \<lambda>exc.
           Inr (format_result ''ollama_http'' False
                  (''HTTP error @ /api/version: '' @ str_of_int (exc_code exc) @ '' ''
                     @ exc_reason exc))),
        (URLError, \<lambda>exc.
           Inr (format_result ''ollama_http'' False
                  (''HTTP connection error to http://localhost:11434: '' @ exc_reason exc))),
        (Exception, \<lambda>exc.
           Inr (format_result ''ollama_http'' False (''HTTP probe error: '' @ exc_str exc)))]"

text \<open>
  One pass of the loop body of \<open>check_ollama_cli\<close> either returns from the function or
  continues with the next variant.
\<close>

datatype 'a loop_step = Return 'a | Continue

definition variant_body :: "environment \<Rightarrow> string list \<Rightarrow> py_exc + result loop_step" where
  "variant_body env variant =
     try_except
       (and_then (run_ollama_cmd env variant) (\<lambda>proc.
          if returncode proc = 0 then
            (let details = py_or (strip (py_or (py_or (stdout proc) (stderr proc)) []))
                             (''ollama '' @ join '' '' variant @ '' OK'')
             in Inr (Return (format_result ''ollama_cli'' True details)))
          else
            (let stderr_low = lower (strip (py_or (stderr proc) []))
             in if str_in ''unknown command'' stderr_low \<or> str_in ''unknown flag'' stderr_low
                then Inr Continue
                else Inr (Return (format_result ''ollama_cli'' False
                            (''Exit code '' @ str_of_int (returncode proc) @ '': ''
                               @ strip (stderr proc)))))))
       [(FileNotFoundError, \<lambda>exc.
           Inr (Return (format_result ''ollama_cli'' False ''ollama CLI not found on PATH''))),
        (Exception, \<lambda>exc.
           Inr (Return (format_result ''ollama_cli'' False (''Command error: '' @ exc_str exc))))]"

text \<open>
  The external calls a check makes, in order. The loop over the variants returns \<open>None\<close>
  when it runs to its end without returning from the function.
\<close>

datatype event = SubprocessRun "string list" | UrlOpen string

fun try_variants ::
  "environment \<Rightarrow> string list list \<Rightarrow> (py_exc + result) option \<times> event list" where
  "try_variants env [] = (None, [])"
| "try_variants env (variant # rest) =
     (case variant_body env variant of
        Inl e \<Rightarrow> (Some (Inl e), [SubprocessRun (''ollama'' # variant)])
      | Inr (Return r) \<Rightarrow> (Some (Inr r), [SubprocessRun (''ollama'' # variant)])
      | Inr Continue \<Rightarrow>
          (let (out, evs) = try_variants env rest
           in (out, SubprocessRun (''ollama'' # variant) # evs)))"

definition variants :: "string list list" where
  "variants = [[''--version''], [''version'']]"

definition check_ollama_cli :: "environment \<Rightarrow> (py_exc + result) \<times> event list" where
  "check_ollama_cli env =
     (case try_variants env variants of
        (Some out, evs) \<Rightarrow> (out, evs)
      | (None, evs) \<Rightarrow> (probe_ollama_http env, evs @ [UrlOpen probe_url]))"

text \<open>The SQL statements of \<open>check_sqlite\<close>.\<close>

definition create_sql :: string where
  "create_sql = ''CREATE TABLE healthcheck(id INTEGER PRIMARY KEY, label TEXT)''"

definition insert_sql :: string where
  "insert_sql = ''INSERT INTO healthcheck(label) VALUES (?)''"

definition select_sql :: string where
  "select_sql = ''SELECT label FROM healthcheck WHERE id = 1''"

text \<open>\<open>row[0]\<close> on a tuple.\<close>

definition index0 :: "sql_value list \<Rightarrow> py_exc + sql_value" where
  "index0 row =
     (case row of
        [] \<Rightarrow> Inl \<lparr>exc_class = IndexError, exc_str = ''tuple index out of range'',
                   exc_code = 0, exc_reason = []\<rparr>
      | v # _ \<Rightarrow> Inr v)"

definition check_sqlite :: "environment \<Rightarrow> py_exc + result" where
  "check_sqlite env =
     try_except
       (and_then (sqlite_connect env '':memory:'') (\<lambda>conn.
        and_then (execute conn create_sql []) (\<lambda>_.
        and_then (execute conn insert_sql [SqlText ''ok'']) (\<lambda>_.
        and_then (execute conn select_sql []) (\<lambda>cur.
        and_then (fetchone cur) (\<lambda>row.
        and_then (case row of
                    None \<Rightarrow> Inr False
                  | Some r \<Rightarrow> and_then (index0 r) (\<lambda>v. Inr (v = SqlText ''ok''))) (\<lambda>ok.
          Inr (format_result ''sqlite'' ok
                 (if ok then ''In-memory DB create/insert/select OK''
                  else ''Unexpected query result'')))))))))
       [(Exception, \<lambda>exc.
           Inr (format_result ''sqlite'' False (''SQLite error: '' @ exc_str exc)))]"

section \<open>The runner\<close>

text \<open>
  \<open>main\<close> prints \<open>json.dumps({"results": results}, indent=2)\<close>; the report below is the
  value that is serialised. \<open>results.append(check())\<close> runs the check and, when it returns,
  appends its Result.
\<close>

record report =
  results :: "result list"

definition append_result :: "result list \<Rightarrow> py_exc + result \<Rightarrow> py_exc + result list" where
  "append_result rs c = and_then c (\<lambda>r. Inr (rs @ [r]))"

definition main :: "environment \<Rightarrow> py_exc + report" where
  "main env =
     and_then (append_result [] (check_python env)) (\<lambda>rs.
     and_then (append_result rs (check_import env ''langchain'' (Some ''langchain''))) (\<lambda>rs.
     and_then (append_result rs
                 (check_import env ''langchain_community'' (Some ''langchain-community''))) (\<lambda>rs.
     and_then (append_result rs
                 (check_import env ''langchain_ollama'' (Some ''langchain-ollama''))) (\<lambda>rs.
     and_then (append_result rs (check_import env ''dotenv'' (Some ''python-dotenv''))) (\<lambda>rs.
     and_then (append_result rs (check_import env ''pypdf'' (Some ''pypdf''))) (\<lambda>rs.
     and_then (append_result rs (fst (check_ollama_cli env))) (\<lambda>rs.
     and_then (append_result rs (check_sqlite env)) (\<lambda>rs.
       Inr \<lparr>results = rs\<rparr>))))))))"

section \<open>Notions used in the properties\<close>

text \<open>The interpreter is at least 3.9, written out on the version triple.\<close>

definition at_least_3_9 :: "environment \<Rightarrow> bool" where
  "at_least_3_9 env =
     (case version_info env of (major, minor, micro) \<Rightarrow> 3 < major \<or> (major = 3 \<and> 9 \<le> minor))"

text \<open>\<open>display_name or module_name\<close>: the label, unless it is absent or empty.\<close>

definition display_of :: "string \<Rightarrow> string option \<Rightarrow> string" where
  "display_of module_name display_name =
     (case display_name of None \<Rightarrow> module_name | Some d \<Rightarrow> if d = [] then module_name else d)"

definition status_valid :: "result \<Rightarrow> bool" where
  "status_valid r = (field r ''status'' = Some ''ok'' \<or> field r ''status'' = Some ''error'')"

text \<open>
  A variant is skipped: its invocation returns a non-zero exit status and its standard
  error, trimmed and lower-cased, names an unknown command or an unknown flag.
\<close>

definition skipped :: "environment \<Rightarrow> string list \<Rightarrow> bool" where
  "skipped env variant =
     (case run_ollama_cmd env variant of
        Inl e \<Rightarrow> False
      | Inr proc \<Rightarrow>
          returncode proc \<noteq> 0 \<and>
          (str_in ''unknown command'' (lower (strip (py_or (stderr proc) []))) \<or>
           str_in ''unknown flag'' (lower (strip (py_or (stderr proc) [])))))"

text \<open>The process invocations for a list of variants, in order.\<close>

definition run_events :: "string list list \<Rightarrow> event list" where
  "run_events vs = map (\<lambda>v. SubprocessRun (''ollama'' # v)) vs"

text \<open>
  The outcome of the open, create, insert, select sequence of \<open>check_sqlite\<close>: the exception
  raised by the first step that fails, or what \<open>fetchone\<close> returns.
\<close>

definition query_outcome :: "environment \<Rightarrow> py_exc + sql_value list option" where
  "query_outcome env =
     and_then (sqlite_connect env '':memory:'') (\<lambda>conn.
     and_then (execute conn create_sql []) (\<lambda>_.
     and_then (execute conn insert_sql [SqlText ''ok'']) (\<lambda>_.
     and_then (execute conn select_sql []) (\<lambda>cur. fetchone cur))))"

text \<open>The five modules that \<open>main\<close> imports, and the fixed sequence of its eight checks.\<close>

definition modules :: "string list" where
  "modules = [''langchain'', ''langchain_community'', ''langchain_ollama'', ''dotenv'', ''pypdf'']"

definition checks :: "environment \<Rightarrow> (py_exc + result) list" where
  "checks env =
     [check_python env,
      check_import env ''langchain'' (Some ''langchain''),
      check_import env ''langchain_community'' (Some ''langchain-community''),
      check_import env ''langchain_ollama'' (Some ''langchain-ollama''),
      check_import env ''dotenv'' (Some ''python-dotenv''),
      check_import env ''pypdf'' (Some ''pypdf''),
      fst (check_ollama_cli env),
      check_sqlite env]"

text \<open>The CLI exits 0 on a variant that the loop reaches.\<close>

definition cli_ok :: "environment \<Rightarrow> bool" where
  "cli_ok env =
     ((\<exists>p. run_ollama_cmd env [''--version''] = Inr p \<and> returncode p = 0) \<or>
      (skipped env [''--version''] \<and>
       (\<exists>p. run_ollama_cmd env [''version''] = Inr p \<and> returncode p = 0)))"

text \<open>
  Two environments agree on everything the run observes: the interpreter's version, the
  outcome of the five imports, of the two CLI invocations, of the HTTP request and of
  opening the database.
\<close>

definition env_agree :: "environment \<Rightarrow> environment \<Rightarrow> bool" where
  "env_agree e1 e2 =
     (version_info e1 = version_info e2 \<and>
      python_version e1 = python_version e2 \<and>
      list_all (\<lambda>m. import_module e1 m = import_module e2 m) modules \<and>
      list_all (\<lambda>v. run_ollama_cmd e1 v = run_ollama_cmd e2 v) variants \<and>
      urlopen e1 probe_url = urlopen e2 probe_url \<and>
      sqlite_connect e1 '':memory:'' = sqlite_connect e2 '':memory:'')"

section \<open>Sample environments\<close>

definition exc :: "py_class \<Rightarrow> string \<Rightarrow> py_exc" where
  "exc c msg = \<lparr>exc_class = c, exc_str = msg, exc_code = 0, exc_reason = msg\<rparr>"

text \<open>A database that answers the primary-key query with the row \<open>("ok",)\<close>.\<close>

definition good_connection :: connection where
  "good_connection =
     \<lparr>execute = (\<lambda>sql params.
        Inr \<lparr>fetchone = Inr (if sql = select_sql then Some [SqlText ''ok''] else None)\<rparr>)\<rparr>"

text \<open>
  Interpreter 3.11.4, every module importable with version 1.2.3, a CLI that prints
  \<open>v0.1.0\<close> and exits 0, no HTTP server, a working database.
\<close>

definition env_ok :: environment where
  "env_ok =
     \<lparr>version_info = (3, 11, 4),
      python_version = ''3.11.4'',
      import_module = (\<lambda>m. Inr \<lparr>version_attr = Some ''1.2.3''\<rparr>),
      subprocess_run = (\<lambda>args. Inr \<lparr>returncode = 0, stdout = ''v0.1.0'' @ [CHR 0x0A], stderr = []\<rparr>),
      urlopen = (\<lambda>url. Inl (exc URLError ''[Errno 111] Connection refused'')),
      sqlite_connect = (\<lambda>path. Inr good_connection)\<rparr>"

text \<open>The same machine with interpreter 3.8.18.\<close>

definition env_old :: environment where
  "env_old = env_ok\<lparr>version_info := (3, 8, 18), python_version := ''3.8.18''\<rparr>"

text \<open>No \<open>ollama\<close> binary on the PATH.\<close>

definition env_no_cli :: environment where
  "env_no_cli =
     env_ok\<lparr>subprocess_run :=
       (\<lambda>args. Inl (exc FileNotFoundError ''[Errno 2] No such file or directory: ollama''))\<rparr>"

text \<open>The CLI blocks for longer than the timeout of five seconds.\<close>

definition timeout_exc :: py_exc where
  "timeout_exc = exc TimeoutExpired ''Command ollama --version timed out after 5 seconds''"

definition env_timeout :: environment where
  "env_timeout = env_ok\<lparr>subprocess_run := (\<lambda>args. Inl timeout_exc)\<rparr>"

text \<open>The CLI exits 0 and prints nothing.\<close>

definition env_silent :: environment where
  "env_silent =
     env_ok\<lparr>subprocess_run := (\<lambda>args. Inr \<lparr>returncode = 0, stdout = [], stderr = []\<rparr>)\<rparr>"

text \<open>The CLI exits 1 because the server is down.\<close>

definition env_exit1 :: environment where
  "env_exit1 =
     env_ok\<lparr>subprocess_run :=
       (\<lambda>args. Inr \<lparr>returncode = 1, stdout = [],
                      stderr = ''Error: could not connect to ollama app'' @ [CHR 0x0A]\<rparr>)\<rparr>"

text \<open>
  The CLI knows neither variant; the HTTP server answers 200 with the body \<open>0.5.1\<close>.
\<close>

definition env_http :: environment where
  "env_http =
     env_ok\<lparr>subprocess_run :=
              (\<lambda>args. Inr \<lparr>returncode = 1, stdout = [],
                             stderr = ''Error: unknown command'' @ [CHR 0x0A]\<rparr>),
            urlopen :=
              (\<lambda>url. Inr \<lparr>status = 200, reason = ''OK'', read_decoded = Inr ''0.5.1''\<rparr>)\<rparr>"

text \<open>The CLI knows neither variant and no HTTP server listens.\<close>

definition env_http_down :: environment where
  "env_http_down =
     env_ok\<lparr>subprocess_run :=
              (\<lambda>args. Inr \<lparr>returncode = 1, stdout = [],
                             stderr = ''Error: unknown command'' @ [CHR 0x0A]\<rparr>)\<rparr>"

text \<open>No module can be imported; a module without a version attribute.\<close>

definition env_no_modules :: environment where
  "env_no_modules =
     env_ok\<lparr>import_module :=
       (\<lambda>m. Inl (exc ModuleNotFoundError (''No module named '' @ m)))\<rparr>"

definition env_no_version :: environment where
  "env_no_version = env_ok\<lparr>import_module := (\<lambda>m. Inr \<lparr>version_attr = None\<rparr>)\<rparr>"

text \<open>The database cannot be opened.\<close>

definition env_db_fail :: environment where
  "env_db_fail =
     env_ok\<lparr>sqlite_connect :=
       (\<lambda>path. Inl (exc OperationalError ''unable to open database file''))\<rparr>"

text \<open>The same machine as \<open>env_ok\<close>, where a module the run never imports is missing.\<close>

definition env_other :: environment where
  "env_other =
     env_ok\<lparr>import_module :=
       (\<lambda>m. if m = ''numpy'' then Inl (exc ModuleNotFoundError ''No module named numpy'')
            else Inr \<lparr>version_attr = Some ''1.2.3''\<rparr>)\<rparr>"

section \<open>Properties\<close>

lemma field_format_result:
  "field (format_result n ok d) ''name'' = Some n"
  "field (format_result n ok d) ''status'' = Some (if ok then ''ok'' else ''error'')"
  "field (format_result n ok d) ''details'' = Some d"
  by (simp_all add: field_def format_result_def)

lemma tuple_ge_3_9:
  "tuple_ge [major, minor, micro] [3, 9] \<longleftrightarrow> 3 < major \<or> (major = 3 \<and> 9 \<le> minor)"
  by auto

lemma str_in_mid: "str_in s (p @ s @ q)"
  by (simp add: str_in_def)

lemma str_in_end: "str_in s (p @ s)"
  by (simp add: str_in_def)

subsection \<open>Exceptions and sequencing\<close>

lemma isinstance_Exception: "isinstance e Exception"
  by (cases "exc_class e") (simp_all add: isinstance_def)

lemma and_then_Inl: "and_then (Inl e) f = Inl e"
  by (simp add: and_then_def)

lemma and_then_Inr: "and_then (Inr v) f = f v"
  by (simp add: and_then_def)

lemma try_except_Inr: "try_except (Inr v) hs = Inr v"
  by (simp add: try_except_def)

lemma try_except_Inl: "try_except (Inl e) hs = handle hs e"
  by (simp add: try_except_def)

lemmas seq_simps = and_then_Inl and_then_Inr try_except_Inr try_except_Inl

subsection \<open>The runtime check\<close>

lemma check_python_eq:
  "check_python env =
     Inr (format_result ''python'' (at_least_3_9 env)
            (''Python '' @ python_version env @ '' detected''
               @ (if at_least_3_9 env then [] else '' (requires >= 3.9)'')))"
  by (cases "version_info env")
    (simp add: check_python_def at_least_3_9_def tuple_ge_3_9 del: tuple_ge.simps)

text \<open>
  C5. For every interpreter version triple, \<open>check_python\<close> returns a Result (it never
  raises) whose status is "ok" exactly when the version is at least (3, 9), and "error"
  otherwise; its details contain the detected version string, and below the minimum they
  also contain the remediation note.
\<close>

theorem check_python_correct:
  assumes "version_info env = (major, minor, micro)"
  shows "\<exists>r d. check_python env = Inr r \<and> field r ''details'' = Some d
     \<and> (field r ''status'' = Some ''ok'' \<longleftrightarrow> 3 < major \<or> (major = 3 \<and> 9 \<le> minor))
     \<and> (field r ''status'' = Some ''ok'' \<or> field r ''status'' = Some ''error'')
     \<and> str_in (python_version env) d
     \<and> (\<not> (3 < major \<or> (major = 3 \<and> 9 \<le> minor)) \<longrightarrow> str_in ''(requires >= 3.9)'' d)"
proof -
  let ?ok = "at_least_3_9 env"
  let ?d = "''Python '' @ python_version env @ '' detected''
               @ (if ?ok then [] else '' (requires >= 3.9)'')"
  let ?r = "format_result ''python'' ?ok ?d"
  have ok: "?ok \<longleftrightarrow> 3 < major \<or> (major = 3 \<and> 9 \<le> minor)"
    using assms by (simp add: at_least_3_9_def)
  have 1: "check_python env = Inr ?r" by (rule check_python_eq)
  have 2: "field ?r ''details'' = Some ?d" by (rule field_format_result)
  have 3: "field ?r ''status'' = Some ''ok'' \<longleftrightarrow> ?ok"
    by (simp add: field_format_result)
  have 4: "field ?r ''status'' = Some ''ok'' \<or> field ?r ''status'' = Some ''error''"
    by (simp add: field_format_result)
  have 5: "str_in (python_version env) ?d" by (rule str_in_mid)
  have 6: "\<not> ?ok \<longrightarrow> str_in ''(requires >= 3.9)'' ?d"
  proof
    assume "\<not> ?ok"
    then have "?d = (''Python '' @ python_version env @ '' detected '') @ ''(requires >= 3.9)''"
      by simp
    then show "str_in ''(requires >= 3.9)'' ?d"
      using str_in_end [of "''(requires >= 3.9)''"
                           "''Python '' @ python_version env @ '' detected ''"]
      by simp
  qed
  from 1 2 3 4 5 6 ok show ?thesis by blast
qed

theorem check_python_correct_witness:
  "version_info env_old = (3, 8, 18) \<and>
   (\<exists>r d. check_python env_old = Inr r \<and> field r ''details'' = Some d
     \<and> field r ''status'' \<noteq> Some ''ok''
     \<and> field r ''status'' = Some ''error''
     \<and> str_in (python_version env_old) d
     \<and> str_in ''(requires >= 3.9)'' d)"
proof -
  have h: "version_info env_old = (3, 8, 18)" by (simp add: env_old_def)
  from check_python_correct [OF h] h show ?thesis by auto
qed

subsection \<open>The dependency check\<close>

lemma check_import_loaded:
  assumes "import_module env m = Inr md"
  shows "check_import env m dn =
     Inr (format_result (display_of m dn) True
           (''Import OK (version: '' @ (case version_attr md of None \<Rightarrow> ''unknown'' | Some v \<Rightarrow> v) @ '')''))"
  using assms by (simp add: check_import_def seq_simps display_of_def py_or_def split: option.splits)

lemma check_import_failed:
  assumes "import_module env m = Inl e"
  shows "check_import env m dn =
     Inr (format_result (display_of m dn) False (''Import failed: '' @ exc_str e))"
  using assms by (simp add: check_import_def seq_simps display_of_def py_or_def isinstance_Exception split: option.splits)

text \<open>
  C6. For every module name and label, \<open>check_import\<close> returns a Result. When the module
  loads and has a version attribute, the status is "ok" and the details are
  "Import OK (version: v)" for that version v; when it loads without the attribute, the
  status is still "ok" and the details report "unknown"; when the load raises, the status
  is "error" and the details are "Import failed: " followed by the message of the exception.
\<close>

theorem check_import_correct:
  "(\<forall>md v. import_module env m = Inr md \<and> version_attr md = Some v \<longrightarrow>
      (\<exists>r d. check_import env m dn = Inr r \<and> field r ''name'' = Some (display_of m dn)
         \<and> field r ''status'' = Some ''ok'' \<and> field r ''details'' = Some d
         \<and> d = ''Import OK (version: '' @ v @ '')'' \<and> str_in v d))
   \<and> (\<forall>md. import_module env m = Inr md \<and> version_attr md = None \<longrightarrow>
      (\<exists>r. check_import env m dn = Inr r \<and> field r ''name'' = Some (display_of m dn)
         \<and> field r ''status'' = Some ''ok''
         \<and> field r ''details'' = Some ''Import OK (version: unknown)''))
   \<and> (\<forall>e. import_module env m = Inl e \<longrightarrow>
      (\<exists>r d. check_import env m dn = Inr r \<and> field r ''name'' = Some (display_of m dn)
         \<and> field r ''status'' = Some ''error'' \<and> field r ''details'' = Some d
         \<and> d = ''Import failed: '' @ exc_str e \<and> str_in (exc_str e) d))"
proof (intro conjI allI impI)
  fix md v assume h: "import_module env m = Inr md \<and> version_attr md = Some v"
  let ?d = "''Import OK (version: '' @ v @ '')''"
  let ?r = "format_result (display_of m dn) True ?d"
  have 1: "check_import env m dn = Inr ?r"
    using h check_import_loaded [of env m md dn] by simp
  have 2: "str_in v ?d" by (rule str_in_mid)
  have "check_import env m dn = Inr ?r \<and> field ?r ''name'' = Some (display_of m dn)
         \<and> field ?r ''status'' = Some ''ok'' \<and> field ?r ''details'' = Some ?d
         \<and> ?d = ''Import OK (version: '' @ v @ '')'' \<and> str_in v ?d"
    using 1 2 by (simp add: field_format_result)
  then show "\<exists>r d. check_import env m dn = Inr r \<and> field r ''name'' = Some (display_of m dn)
         \<and> field r ''status'' = Some ''ok'' \<and> field r ''details'' = Some d
         \<and> d = ''Import OK (version: '' @ v @ '')'' \<and> str_in v d"
    by blast
next
  fix md assume h: "import_module env m = Inr md \<and> version_attr md = None"
  let ?r = "format_result (display_of m dn) True ''Import OK (version: unknown)''"
  have 1: "check_import env m dn = Inr ?r"
    using h check_import_loaded [of env m md dn] by simp
  have "check_import env m dn = Inr ?r \<and> field ?r ''name'' = Some (display_of m dn)
         \<and> field ?r ''status'' = Some ''ok''
         \<and> field ?r ''details'' = Some ''Import OK (version: unknown)''"
    using 1 by (simp add: field_format_result)
  then show "\<exists>r. check_import env m dn = Inr r \<and> field r ''name'' = Some (display_of m dn)
         \<and> field r ''status'' = Some ''ok''
         \<and> field r ''details'' = Some ''Import OK (version: unknown)''"
    by blast
next
  fix e assume h: "import_module env m = Inl e"
  let ?d = "''Import failed: '' @ exc_str e"
  let ?r = "format_result (display_of m dn) False ?d"
  have 1: "check_import env m dn = Inr ?r"
    by (rule check_import_failed [OF h])
  have 2: "str_in (exc_str e) ?d" by (rule str_in_end)
  have "check_import env m dn = Inr ?r \<and> field ?r ''name'' = Some (display_of m dn)
         \<and> field ?r ''status'' = Some ''error'' \<and> field ?r ''details'' = Some ?d
         \<and> ?d = ''Import failed: '' @ exc_str e \<and> str_in (exc_str e) ?d"
    using 1 2 by (simp add: field_format_result)
  then show "\<exists>r d. check_import env m dn = Inr r \<and> field r ''name'' = Some (display_of m dn)
         \<and> field r ''status'' = Some ''error'' \<and> field r ''details'' = Some d
         \<and> d = ''Import failed: '' @ exc_str e \<and> str_in (exc_str e) d"
    by blast
qed

theorem check_import_correct_witness:
  "(import_module env_ok ''langchain'' = Inr \<lparr>version_attr = Some ''1.2.3''\<rparr>
     \<and> check_import env_ok ''langchain'' None
         = Inr (format_result ''langchain'' True ''Import OK (version: 1.2.3)''))
   \<and> (import_module env_no_version ''dotenv'' = Inr \<lparr>version_attr = None\<rparr>
     \<and> (\<exists>r. check_import env_no_version ''dotenv'' (Some ''python-dotenv'') = Inr r
           \<and> field r ''name'' = Some ''python-dotenv'' \<and> field r ''status'' = Some ''ok''
           \<and> field r ''details'' = Some ''Import OK (version: unknown)''))
   \<and> (import_module env_no_modules ''pypdf'' = Inl (exc ModuleNotFoundError ''No module named pypdf'')
     \<and> (\<exists>r. check_import env_no_modules ''pypdf'' (Some ''pypdf'') = Inr r
           \<and> field r ''status'' = Some ''error''
           \<and> field r ''details'' = Some ''Import failed: No module named pypdf''))"
proof -
  have a: "import_module env_ok ''langchain'' = Inr \<lparr>version_attr = Some ''1.2.3''\<rparr>"
    by (simp add: env_ok_def)
  have b: "import_module env_no_version ''dotenv'' = Inr \<lparr>version_attr = None\<rparr>"
    by (simp add: env_no_version_def)
  have c: "import_module env_no_modules ''pypdf'' = Inl (exc ModuleNotFoundError ''No module named pypdf'')"
    by (simp add: env_no_modules_def)
  from check_import_correct [of env_ok "''langchain''" None] a
  have 1: "check_import env_ok ''langchain'' None
         = Inr (format_result ''langchain'' True ''Import OK (version: 1.2.3)'')"
    by (simp add: check_import_def seq_simps py_or_def)
  from check_import_correct [of env_no_version "''dotenv''" "Some ''python-dotenv''"] b
  have 2: "\<exists>r. check_import env_no_version ''dotenv'' (Some ''python-dotenv'') = Inr r
           \<and> field r ''name'' = Some ''python-dotenv'' \<and> field r ''status'' = Some ''ok''
           \<and> field r ''details'' = Some ''Import OK (version: unknown)''"
    by (simp add: display_of_def)
  from check_import_correct [of env_no_modules "''pypdf''" "Some ''pypdf''"] c
  have 3: "\<exists>r. check_import env_no_modules ''pypdf'' (Some ''pypdf'') = Inr r
           \<and> field r ''status'' = Some ''error''
           \<and> field r ''details'' = Some ''Import failed: No module named pypdf''"
    by (auto simp add: exc_def)
  from a b c 1 2 3 show ?thesis by blast
qed

subsection \<open>The database check\<close>

lemma check_sqlite_via_query:
  "check_sqlite env =
     (case query_outcome env of
        Inl e \<Rightarrow> Inr (format_result ''sqlite'' False (''SQLite error: '' @ exc_str e))
      | Inr None \<Rightarrow> Inr (format_result ''sqlite'' False ''Unexpected query result'')
      | Inr (Some []) \<Rightarrow> Inr (format_result ''sqlite'' False ''SQLite error: tuple index out of range'')
      | Inr (Some (v # rest)) \<Rightarrow>
          Inr (format_result ''sqlite'' (v = SqlText ''ok'')
                 (if v = SqlText ''ok'' then ''In-memory DB create/insert/select OK''
                  else ''Unexpected query result'')))"
  by (simp add: check_sqlite_def query_outcome_def try_except_def and_then_def index0_def
        isinstance_Exception split: sum.splits option.splits list.splits)

text \<open>
  C7. \<open>check_sqlite\<close> always returns a Result with status "ok" or "error". The status is
  "ok" if and only if the open, create, insert, select sequence completes and \<open>fetchone\<close>
  returns a row whose first column is the text "ok". An exception raised by a step of the
  sequence is caught: the status is "error" and the details are "SQLite error: " followed
  by the message of the exception.
\<close>

theorem check_sqlite_correct:
  "(\<exists>r. check_sqlite env = Inr r \<and> status_valid r
        \<and> (field r ''status'' = Some ''ok'' \<longleftrightarrow>
             (\<exists>rest. query_outcome env = Inr (Some (SqlText ''ok'' # rest)))))
   \<and> (\<forall>e. query_outcome env = Inl e \<longrightarrow>
         (\<exists>r d. check_sqlite env = Inr r \<and> field r ''status'' = Some ''error''
            \<and> field r ''details'' = Some d \<and> d = ''SQLite error: '' @ exc_str e
            \<and> str_in (exc_str e) d))"
proof (intro conjI allI impI)
  show "\<exists>r. check_sqlite env = Inr r \<and> status_valid r
        \<and> (field r ''status'' = Some ''ok'' \<longleftrightarrow>
             (\<exists>rest. query_outcome env = Inr (Some (SqlText ''ok'' # rest))))"
    by (auto simp add: check_sqlite_via_query status_valid_def field_format_result
          split: sum.splits option.splits list.splits)
next
  fix e assume h: "query_outcome env = Inl e"
  let ?d = "''SQLite error: '' @ exc_str e"
  let ?r = "format_result ''sqlite'' False ?d"
  have 1: "check_sqlite env = Inr ?r" using h by (simp add: check_sqlite_via_query)
  have 2: "str_in (exc_str e) ?d" by (rule str_in_end)
  have "check_sqlite env = Inr ?r \<and> field ?r ''status'' = Some ''error''
            \<and> field ?r ''details'' = Some ?d \<and> ?d = ''SQLite error: '' @ exc_str e
            \<and> str_in (exc_str e) ?d"
    using 1 2 by (simp add: field_format_result)
  then show "\<exists>r d. check_sqlite env = Inr r \<and> field r ''status'' = Some ''error''
            \<and> field r ''details'' = Some d \<and> d = ''SQLite error: '' @ exc_str e
            \<and> str_in (exc_str e) d"
    by blast
qed

theorem check_sqlite_correct_witness:
  "query_outcome env_db_fail = Inl (exc OperationalError ''unable to open database file'')
   \<and> (\<exists>r. check_sqlite env_db_fail = Inr r \<and> field r ''status'' = Some ''error''
          \<and> field r ''details'' = Some ''SQLite error: unable to open database file'')
   \<and> query_outcome env_ok = Inr (Some [SqlText ''ok''])
   \<and> (\<exists>r. check_sqlite env_ok = Inr r \<and> field r ''status'' = Some ''ok'')"
proof -
  have a: "query_outcome env_db_fail = Inl (exc OperationalError ''unable to open database file'')"
    by (simp add: query_outcome_def env_db_fail_def and_then_def)
  have b: "query_outcome env_ok = Inr (Some [SqlText ''ok''])"
    by (simp add: query_outcome_def env_ok_def good_connection_def and_then_def)
  from check_sqlite_correct [of env_db_fail] a
  have 1: "\<exists>r. check_sqlite env_db_fail = Inr r \<and> field r ''status'' = Some ''error''
          \<and> field r ''details'' = Some ''SQLite error: unable to open database file''"
    by (auto simp add: exc_def)
  from check_sqlite_correct [of env_ok] b
  have 2: "\<exists>r. check_sqlite env_ok = Inr r \<and> field r ''status'' = Some ''ok''"
    by auto
  from a b 1 2 show ?thesis by blast
qed

subsection \<open>The service check\<close>

lemma probe_ollama_http_result:
  "\<exists>ok d. probe_ollama_http env = Inr (format_result ''ollama_http'' ok d)"
  by (auto simp add: probe_ollama_http_def try_except_def and_then_def isinstance_Exception
        split: sum.splits)

lemma variant_body_not_found:
  assumes "run_ollama_cmd env v = Inl e" "isinstance e FileNotFoundError"
  shows "variant_body env v =
           Inr (Return (format_result ''ollama_cli'' False ''ollama CLI not found on PATH''))"
  using assms by (simp add: variant_body_def seq_simps)

lemma variant_body_error:
  assumes "run_ollama_cmd env v = Inl e" "\<not> isinstance e FileNotFoundError"
  shows "variant_body env v =
           Inr (Return (format_result ''ollama_cli'' False (''Command error: '' @ exc_str e)))"
  using assms by (simp add: variant_body_def seq_simps isinstance_Exception)

lemma variant_body_zero:
  assumes "run_ollama_cmd env v = Inr p" "returncode p = 0"
  shows "variant_body env v =
           Inr (Return (format_result ''ollama_cli'' True
                  (py_or (strip (py_or (py_or (stdout p) (stderr p)) []))
                         (''ollama '' @ join '' '' v @ '' OK''))))"
  using assms by (simp add: variant_body_def seq_simps)

lemma variant_body_exit:
  assumes "run_ollama_cmd env v = Inr p" "returncode p \<noteq> 0" "\<not> skipped env v"
  shows "variant_body env v =
           Inr (Return (format_result ''ollama_cli'' False
                  (''Exit code '' @ str_of_int (returncode p) @ '': '' @ strip (stderr p))))"
  using assms by (simp add: variant_body_def seq_simps skipped_def Let_def)

lemma variant_body_Continue_iff:
  "variant_body env v = Inr Continue \<longleftrightarrow> skipped env v"
  by (cases "run_ollama_cmd env v")
    (simp_all add: variant_body_def seq_simps skipped_def isinstance_Exception Let_def)

lemma variant_body_returns:
  "\<exists>s. variant_body env v = Inr s"
  by (cases "run_ollama_cmd env v")
    (simp_all add: variant_body_def seq_simps isinstance_Exception Let_def)

lemma try_variants_skipped:
  "list_all (skipped env) pre \<Longrightarrow>
   try_variants env (pre @ rest) =
     (fst (try_variants env rest), run_events pre @ snd (try_variants env rest))"
proof (induction pre)
  case Nil
  then show ?case by (simp add: run_events_def)
next
  case (Cons v pre)
  then have "variant_body env v = Inr Continue"
    by (simp add: variant_body_Continue_iff)
  with Cons show ?case
    by (simp add: run_events_def split: prod.splits)
qed

lemma try_variants_Return:
  "variant_body env v = Inr (Return r) \<Longrightarrow>
   try_variants env (v # post) = (Some (Inr r), run_events [v])"
  by (simp add: run_events_def)

lemma try_variants_None_iff:
  "fst (try_variants env vs) = None \<longleftrightarrow> list_all (skipped env) vs"
proof (induction vs)
  case Nil
  show ?case by simp
next
  case (Cons v vs)
  show ?case
  proof (cases "variant_body env v")
    case (Inl e)
    then show ?thesis using variant_body_returns [of env v] by simp
  next
    case (Inr s)
    then show ?thesis
      using Cons variant_body_Continue_iff [of env v]
      by (cases s) (auto split: prod.splits)
  qed
qed

lemma try_variants_no_http:
  "UrlOpen u \<notin> set (snd (try_variants env vs))"
  by (induction vs) (auto split: sum.splits loop_step.splits prod.splits)

lemma check_ollama_cli_returned:
  assumes "variants = pre @ v # post" "list_all (skipped env) pre"
    and "variant_body env v = Inr (Return r)"
  shows "check_ollama_cli env = (Inr r, run_events (pre @ [v]))"
proof -
  have "try_variants env (pre @ v # post) = (Some (Inr r), run_events (pre @ [v]))"
    using assms(2,3)
    by (simp add: try_variants_skipped [of env pre "v # post"] run_events_def)
  then show ?thesis
    using assms(1) by (simp add: check_ollama_cli_def)
qed

lemma check_ollama_cli_fallback:
  assumes "list_all (skipped env) variants"
  shows "check_ollama_cli env =
           (probe_ollama_http env, run_events variants @ [UrlOpen probe_url])"
proof -
  have "try_variants env (variants @ []) = (None, run_events variants)"
    using assms by (simp only: try_variants_skipped) simp
  then show ?thesis by (simp add: check_ollama_cli_def)
qed

lemma http_reached_iff:
  "UrlOpen probe_url \<in> set (snd (check_ollama_cli env)) \<longleftrightarrow> list_all (skipped env) variants"
proof -
  obtain out evs where tv: "try_variants env variants = (out, evs)"
    by (cases "try_variants env variants")
  have no: "UrlOpen probe_url \<notin> set evs"
    using try_variants_no_http [of probe_url env variants] tv by simp
  have iff: "out = None \<longleftrightarrow> list_all (skipped env) variants"
    using try_variants_None_iff [of env variants] tv by simp
  show ?thesis
  proof (cases out)
    case None
    then show ?thesis using tv iff by (simp add: check_ollama_cli_def)
  next
    case (Some r)
    then show ?thesis using tv iff no by (simp add: check_ollama_cli_def)
  qed
qed

text \<open>The sample environments, evaluated.\<close>

lemma skipped_env_http: "skipped env_http v"
  by (simp add: skipped_def run_ollama_cmd_def env_http_def env_ok_def) code_simp

lemma run_no_cli:
  "run_ollama_cmd env_no_cli v = Inl (exc FileNotFoundError ''[Errno 2] No such file or directory: ollama'')"
  by (simp add: run_ollama_cmd_def env_no_cli_def)

lemma run_exit1:
  "run_ollama_cmd env_exit1 v =
     Inr \<lparr>returncode = 1, stdout = [], stderr = ''Error: could not connect to ollama app'' @ [CHR 0x0A]\<rparr>"
  by (simp add: run_ollama_cmd_def env_exit1_def)

lemma not_skipped_exit1: "\<not> skipped env_exit1 v"
  by (simp add: skipped_def run_ollama_cmd_def env_exit1_def env_ok_def) code_simp

text \<open>
  C1. The HTTP request is made if and only if both CLI variants, \<open>--version\<close> and then
  \<open>version\<close>, were skipped as unrecognised. When a variant that the loop reaches finds no
  binary (\<open>FileNotFoundError\<close>), or exits non-zero without being unrecognised, the check
  returns an "error" Result named \<open>ollama_cli\<close>, and the calls it has made are exactly the
  invocations up to that variant: no later variant and no HTTP request.
\<close>

theorem http_fallback_only_when_all_skipped:
  "(UrlOpen probe_url \<in> set (snd (check_ollama_cli env)) \<longleftrightarrow>
      skipped env [''--version''] \<and> skipped env [''version''])
   \<and> (\<forall>pre v post e.
        variants = pre @ v # post \<and> list_all (skipped env) pre \<and>
        run_ollama_cmd env v = Inl e \<and> isinstance e FileNotFoundError \<longrightarrow>
        check_ollama_cli env =
          (Inr (format_result ''ollama_cli'' False ''ollama CLI not found on PATH''),
           run_events (pre @ [v])))
   \<and> (\<forall>pre v post p.
        variants = pre @ v # post \<and> list_all (skipped env) pre \<and>
        run_ollama_cmd env v = Inr p \<and> returncode p \<noteq> 0 \<and> \<not> skipped env v \<longrightarrow>
        check_ollama_cli env =
          (Inr (format_result ''ollama_cli'' False
                  (''Exit code '' @ str_of_int (returncode p) @ '': '' @ strip (stderr p))),
           run_events (pre @ [v])))"
proof (intro conjI allI impI)
  show "UrlOpen probe_url \<in> set (snd (check_ollama_cli env)) \<longleftrightarrow>
      skipped env [''--version''] \<and> skipped env [''version'']"
    using http_reached_iff [of env] by (simp add: variants_def)
next
  fix pre v post e
  assume h: "variants = pre @ v # post \<and> list_all (skipped env) pre \<and>
        run_ollama_cmd env v = Inl e \<and> isinstance e FileNotFoundError"
  then have "variant_body env v =
      Inr (Return (format_result ''ollama_cli'' False ''ollama CLI not found on PATH''))"
    using variant_body_not_found [of env v e] by simp
  then show "check_ollama_cli env =
          (Inr (format_result ''ollama_cli'' False ''ollama CLI not found on PATH''),
           run_events (pre @ [v]))"
    using h check_ollama_cli_returned [of pre v post env] by simp
next
  fix pre v post p
  assume h: "variants = pre @ v # post \<and> list_all (skipped env) pre \<and>
        run_ollama_cmd env v = Inr p \<and> returncode p \<noteq> 0 \<and> \<not> skipped env v"
  then have "variant_body env v =
      Inr (Return (format_result ''ollama_cli'' False
                  (''Exit code '' @ str_of_int (returncode p) @ '': '' @ strip (stderr p))))"
    using variant_body_exit [of env v p] by simp
  then show "check_ollama_cli env =
          (Inr (format_result ''ollama_cli'' False
                  (''Exit code '' @ str_of_int (returncode p) @ '': '' @ strip (stderr p))),
           run_events (pre @ [v]))"
    using h check_ollama_cli_returned [of pre v post env] by simp
qed

theorem http_fallback_only_when_all_skipped_witness:
  "(skipped env_http [''--version''] \<and> skipped env_http [''version'']
      \<and> UrlOpen probe_url \<in> set (snd (check_ollama_cli env_http)))
   \<and> (check_ollama_cli env_no_cli =
          (Inr (format_result ''ollama_cli'' False ''ollama CLI not found on PATH''),
           [SubprocessRun [''ollama'', ''--version'']])
        \<and> UrlOpen probe_url \<notin> set (snd (check_ollama_cli env_no_cli)))
   \<and> (check_ollama_cli env_exit1 =
          (Inr (format_result ''ollama_cli'' False
                  ''Exit code 1: Error: could not connect to ollama app''),
           [SubprocessRun [''ollama'', ''--version'']])
        \<and> UrlOpen probe_url \<notin> set (snd (check_ollama_cli env_exit1)))"
proof -
  have v: "variants = [] @ [''--version''] # [[''version'']]"
    by (simp add: variants_def)
  have a: "UrlOpen probe_url \<in> set (snd (check_ollama_cli env_http))"
    using http_fallback_only_when_all_skipped [of env_http] skipped_env_http by blast
  have fnf: "isinstance (exc FileNotFoundError ''[Errno 2] No such file or directory: ollama'') FileNotFoundError"
    by (simp add: isinstance_def exc_def)
  have b: "check_ollama_cli env_no_cli =
          (Inr (format_result ''ollama_cli'' False ''ollama CLI not found on PATH''),
           run_events ([] @ [[''--version'']]))"
  proof -
    have "variants = [] @ [''--version''] # [[''version'']] \<and> list_all (skipped env_no_cli) [] \<and>
        run_ollama_cmd env_no_cli [''--version'']
          = Inl (exc FileNotFoundError ''[Errno 2] No such file or directory: ollama'')
        \<and> isinstance (exc FileNotFoundError ''[Errno 2] No such file or directory: ollama'')
              FileNotFoundError"
      using v run_no_cli fnf by simp
    with http_fallback_only_when_all_skipped [of env_no_cli] show ?thesis by blast
  qed
  have c0: "check_ollama_cli env_exit1 =
          (Inr (format_result ''ollama_cli'' False
                  (''Exit code '' @ str_of_int 1 @ '': '' @ strip (''Error: could not connect to ollama app'' @ [CHR 0x0A]))),
           run_events ([] @ [[''--version'']]))"
  proof -
    have "variants = [] @ [''--version''] # [[''version'']] \<and> list_all (skipped env_exit1) [] \<and>
        run_ollama_cmd env_exit1 [''--version''] = Inr \<lparr>returncode = 1, stdout = [], stderr = ''Error: could not connect to ollama app'' @ [CHR 0x0A]\<rparr>
        \<and> returncode \<lparr>returncode = 1, stdout = [], stderr = ''Error: could not connect to ollama app'' @ [CHR 0x0A]\<rparr> \<noteq> 0
        \<and> \<not> skipped env_exit1 [''--version'']"
      using v run_exit1 not_skipped_exit1 by simp
    with http_fallback_only_when_all_skipped [of env_exit1] show ?thesis by (metis completed_process.select_convs(1) completed_process.select_convs(3))
  qed
  have s1: "str_of_int 1 = ''1''" by code_simp
  have s2: "strip (''Error: could not connect to ollama app'' @ [CHR 0x0A]) = ''Error: could not connect to ollama app''"
    by code_simp
  have c: "check_ollama_cli env_exit1 =
          (Inr (format_result ''ollama_cli'' False
                  ''Exit code 1: Error: could not connect to ollama app''),
           [SubprocessRun [''ollama'', ''--version'']])"
    using c0 unfolding s1 s2 by (simp add: run_events_def)
  from a b c skipped_env_http show ?thesis by (simp add: run_events_def)
qed

lemma timeout_not_file_not_found:
  "exc_class e = TimeoutExpired \<Longrightarrow> \<not> isinstance e FileNotFoundError"
  by (simp add: isinstance_def)

lemma run_timeout: "run_ollama_cmd env_timeout v = Inl timeout_exc"
  by (simp add: run_ollama_cmd_def env_timeout_def)

lemma run_env_ok:
  "run_ollama_cmd env_ok v = Inr \<lparr>returncode = 0, stdout = ''v0.1.0'' @ [CHR 0x0A], stderr = []\<rparr>"
  by (simp add: run_ollama_cmd_def env_ok_def)

lemma run_silent:
  "run_ollama_cmd env_silent v = Inr \<lparr>returncode = 0, stdout = [], stderr = []\<rparr>"
  by (simp add: run_ollama_cmd_def env_silent_def)

text \<open>
  C3 (as amended). When the invocation of a variant that the loop reaches raises
  \<open>subprocess.TimeoutExpired\<close>, the handler \<open>except Exception\<close> of \<open>check_ollama_cli\<close> catches
  it: the check returns the "error" Result named \<open>ollama_cli\<close> with details
  "Command error: " followed by the message of the exception, and makes no further call.
\<close>

theorem timeout_converted_to_error_result:
  assumes "variants = pre @ v # post" and "list_all (skipped env) pre"
    and "run_ollama_cmd env v = Inl e" and "exc_class e = TimeoutExpired"
  shows "check_ollama_cli env =
           (Inr (format_result ''ollama_cli'' False (''Command error: '' @ exc_str e)),
            run_events (pre @ [v]))"
proof -
  have "variant_body env v =
          Inr (Return (format_result ''ollama_cli'' False (''Command error: '' @ exc_str e)))"
    using assms(3,4) by (simp add: variant_body_error timeout_not_file_not_found)
  then show ?thesis
    using assms(1,2) by (rule check_ollama_cli_returned [rotated 2])
qed

theorem timeout_converted_to_error_result_witness:
  "run_ollama_cmd env_timeout [''--version''] = Inl timeout_exc
   \<and> exc_class timeout_exc = TimeoutExpired
   \<and> check_ollama_cli env_timeout =
       (Inr (format_result ''ollama_cli'' False
               ''Command error: Command ollama --version timed out after 5 seconds''),
        [SubprocessRun [''ollama'', ''--version'']])"
proof -
  have v: "variants = [] @ [''--version''] # [[''version'']]"
    by (simp add: variants_def)
  have c: "exc_class timeout_exc = TimeoutExpired"
    by (simp add: timeout_exc_def exc_def)
  have "check_ollama_cli env_timeout =
           (Inr (format_result ''ollama_cli'' False (''Command error: '' @ exc_str timeout_exc)),
            run_events ([] @ [[''--version'']]))"
    by (rule timeout_converted_to_error_result [OF v _ run_timeout c]) simp
  then show ?thesis
    using c run_timeout by (simp add: run_events_def timeout_exc_def exc_def)
qed

theorem timeout_propagates_counterexample:
  "run_ollama_cmd env_timeout [''--version''] = Inl timeout_exc
   \<and> exc_class timeout_exc = TimeoutExpired
   \<and> fst (check_ollama_cli env_timeout) \<noteq> Inl timeout_exc
   \<and> fst (check_ollama_cli env_timeout) =
       Inr (format_result ''ollama_cli'' False
              ''Command error: Command ollama --version timed out after 5 seconds'')"
proof -
  have "variant_body env_timeout [''--version''] =
          Inr (Return (format_result ''ollama_cli'' False (''Command error: '' @ exc_str timeout_exc)))"
    by (rule variant_body_error [OF run_timeout])
       (simp add: timeout_exc_def exc_def isinstance_def)
  then have "check_ollama_cli env_timeout =
       (Inr (format_result ''ollama_cli'' False (''Command error: '' @ exc_str timeout_exc)),
        [SubprocessRun [''ollama'', ''--version'']])"
    by (simp add: check_ollama_cli_def variants_def)
  then show ?thesis
    using run_timeout by (simp add: timeout_exc_def exc_def)
qed

text \<open>
  C8 (as amended). When a variant that the loop reaches exits with status 0, the check
  returns the "ok" Result named \<open>ollama_cli\<close>. Its details are the captured standard output,
  or the captured standard error when the standard output is empty, trimmed; when that
  trimmed text is empty, the details are "ollama " followed by the variant and " OK".
\<close>

theorem exit_zero_details:
  assumes "variants = pre @ v # post" and "list_all (skipped env) pre"
    and "run_ollama_cmd env v = Inr p" and "returncode p = 0"
  shows "check_ollama_cli env =
           (Inr (format_result ''ollama_cli'' True
                   (if strip (if stdout p \<noteq> [] then stdout p else stderr p) \<noteq> []
                    then strip (if stdout p \<noteq> [] then stdout p else stderr p)
                    else ''ollama '' @ join '' '' v @ '' OK'')),
            run_events (pre @ [v]))"
proof -
  have "py_or (strip (py_or (py_or (stdout p) (stderr p)) []))
              (''ollama '' @ join '' '' v @ '' OK'')
        = (if strip (if stdout p \<noteq> [] then stdout p else stderr p) \<noteq> []
           then strip (if stdout p \<noteq> [] then stdout p else stderr p)
           else ''ollama '' @ join '' '' v @ '' OK'')"
    by (simp add: py_or_def)
  then have "variant_body env v =
          Inr (Return (format_result ''ollama_cli'' True
                   (if strip (if stdout p \<noteq> [] then stdout p else stderr p) \<noteq> []
                    then strip (if stdout p \<noteq> [] then stdout p else stderr p)
                    else ''ollama '' @ join '' '' v @ '' OK'')))"
    using variant_body_zero [OF assms(3,4)] by simp
  then show ?thesis
    using assms(1,2) by (rule check_ollama_cli_returned [rotated 2])
qed

theorem exit_zero_details_witness:
  "run_ollama_cmd env_ok [''--version'']
     = Inr \<lparr>returncode = 0, stdout = ''v0.1.0'' @ [CHR 0x0A], stderr = []\<rparr>
   \<and> check_ollama_cli env_ok =
       (Inr (format_result ''ollama_cli'' True ''v0.1.0''),
        [SubprocessRun [''ollama'', ''--version'']])"
proof -
  have v: "variants = [] @ [''--version''] # [[''version'']]"
    by (simp add: variants_def)
  have s: "strip (''v0.1.0'' @ [CHR 0x0A]) = ''v0.1.0''" by code_simp
  have "check_ollama_cli env_ok =
           (Inr (format_result ''ollama_cli'' True
                   (if strip (''v0.1.0'' @ [CHR 0x0A]) \<noteq> []
                    then strip (''v0.1.0'' @ [CHR 0x0A])
                    else ''ollama '' @ join '' '' [''--version''] @ '' OK'')),
            run_events ([] @ [[''--version'']]))"
    using exit_zero_details [OF v _ run_env_ok] by simp
  then show ?thesis
    unfolding s using run_env_ok by (simp add: run_events_def)
qed

theorem exit_zero_details_counterexample:
  "run_ollama_cmd env_silent [''--version'']
     = Inr \<lparr>returncode = 0, stdout = [], stderr = []\<rparr>
   \<and> fst (check_ollama_cli env_silent)
       = Inr (format_result ''ollama_cli'' True ''ollama --version OK'')
   \<and> field (format_result ''ollama_cli'' True ''ollama --version OK'') ''details''
       \<noteq> Some (strip (stderr \<lparr>returncode = 0, stdout = [], stderr = []\<rparr>))"
proof -
  have s: "strip [] = []" by (simp add: strip_def)
  have "variant_body env_silent [''--version''] =
          Inr (Return (format_result ''ollama_cli'' True
                  (py_or (strip (py_or (py_or [] []) []))
                         (''ollama '' @ join '' '' [''--version''] @ '' OK''))))"
    using variant_body_zero [OF run_silent, of "[''--version'']"] by simp
  then have "check_ollama_cli env_silent =
       (Inr (format_result ''ollama_cli'' True ''ollama --version OK''),
        [SubprocessRun [''ollama'', ''--version'']])"
    by (simp add: check_ollama_cli_def variants_def py_or_def s)
  then show ?thesis
    using run_silent by (simp add: s field_format_result)
qed

lemma variant_body_name:
  "variant_body env v = Inr (Return r) \<Longrightarrow>
   \<exists>ok d. r = format_result ''ollama_cli'' ok d"
  by (cases "run_ollama_cmd env v")
    (auto simp add: variant_body_def seq_simps isinstance_Exception Let_def split: if_splits)

lemma try_variants_name:
  "fst (try_variants env vs) = Some out \<Longrightarrow>
   \<exists>ok d. out = Inr (format_result ''ollama_cli'' ok d)"
proof (induction vs)
  case Nil
  then show ?case by simp
next
  case (Cons v vs)
  obtain s where s: "variant_body env v = Inr s"
    using variant_body_returns by blast
  show ?case
  proof (cases s)
    case (Return r)
    then show ?thesis using Cons.prems s variant_body_name [of env v r] by auto
  next
    case Continue
    then show ?thesis using Cons s by (auto split: prod.splits)
  qed
qed

lemma check_ollama_cli_result:
  "\<exists>ok d. fst (check_ollama_cli env) =
     Inr (format_result (if list_all (skipped env) variants then ''ollama_http'' else ''ollama_cli'') ok d)"
proof (cases "list_all (skipped env) variants")
  case True
  then show ?thesis
    using check_ollama_cli_fallback [of env] probe_ollama_http_result [of env] by auto
next
  case False
  obtain out evs where tv: "try_variants env variants = (out, evs)"
    by (cases "try_variants env variants")
  then have "out \<noteq> None"
    using False try_variants_None_iff [of env variants] by auto
  then obtain o' where o': "out = Some o'" by auto
  then have "\<exists>ok d. o' = Inr (format_result ''ollama_cli'' ok d)"
    using try_variants_name [of env variants o'] tv by simp
  then show ?thesis
    using False tv o' by (auto simp add: check_ollama_cli_def)
qed

lemma skipped_env_http_down: "skipped env_http_down v"
  by (simp add: skipped_def run_ollama_cmd_def env_http_down_def env_ok_def) code_simp

lemma check_env_http:
  "check_ollama_cli env_http =
     (Inr (format_result ''ollama_http'' True ''HTTP 200 OK @ /api/version: 0.5.1''),
      [SubprocessRun [''ollama'', ''--version''], SubprocessRun [''ollama'', ''version''],
       UrlOpen probe_url])"
proof -
  have "probe_ollama_http env_http
          = Inr (format_result ''ollama_http'' True ''HTTP 200 OK @ /api/version: 0.5.1'')"
    by code_simp
  then show ?thesis
    using check_ollama_cli_fallback [of env_http] skipped_env_http
    by (simp add: variants_def run_events_def)
qed

lemma check_env_http_down:
  "check_ollama_cli env_http_down =
     (Inr (format_result ''ollama_http'' False
             ''HTTP connection error to http://localhost:11434: [Errno 111] Connection refused''),
      [SubprocessRun [''ollama'', ''--version''], SubprocessRun [''ollama'', ''version''],
       UrlOpen probe_url])"
proof -
  have "probe_ollama_http env_http_down
          = Inr (format_result ''ollama_http'' False
             ''HTTP connection error to http://localhost:11434: [Errno 111] Connection refused'')"
    by code_simp
  then show ?thesis
    using check_ollama_cli_fallback [of env_http_down] skipped_env_http_down
    by (simp add: variants_def run_events_def)
qed

text \<open>
  C10. Whenever the service check makes the HTTP request, it returns a Result named
  \<open>ollama_http\<close>, with status "ok" or "error" as the probe succeeds or fails; whenever it
  does not, it returns a Result named \<open>ollama_cli\<close>. So the name of the entry of the service
  check depends on the path that produced it.
\<close>

theorem service_check_name_follows_path:
  "(UrlOpen probe_url \<in> set (snd (check_ollama_cli env)) \<longrightarrow>
      (\<exists>r. fst (check_ollama_cli env) = Inr r \<and> field r ''name'' = Some ''ollama_http''
           \<and> status_valid r))
   \<and> (UrlOpen probe_url \<notin> set (snd (check_ollama_cli env)) \<longrightarrow>
      (\<exists>r. fst (check_ollama_cli env) = Inr r \<and> field r ''name'' = Some ''ollama_cli''
           \<and> status_valid r))"
  using check_ollama_cli_result [of env] http_reached_iff [of env]
  by (auto simp add: field_format_result status_valid_def)

theorem service_check_name_follows_path_witness:
  "(UrlOpen probe_url \<in> set (snd (check_ollama_cli env_http))
     \<and> fst (check_ollama_cli env_http)
         = Inr (format_result ''ollama_http'' True ''HTTP 200 OK @ /api/version: 0.5.1''))
   \<and> (UrlOpen probe_url \<in> set (snd (check_ollama_cli env_http_down))
     \<and> (\<exists>r. fst (check_ollama_cli env_http_down) = Inr r
            \<and> field r ''name'' = Some ''ollama_http'' \<and> field r ''status'' = Some ''error''))
   \<and> (UrlOpen probe_url \<notin> set (snd (check_ollama_cli env_ok))
     \<and> (\<exists>r. fst (check_ollama_cli env_ok) = Inr r \<and> field r ''name'' = Some ''ollama_cli''))"
proof -
  have a: "UrlOpen probe_url \<in> set (snd (check_ollama_cli env_http))"
    by (simp add: check_env_http)
  have b: "UrlOpen probe_url \<in> set (snd (check_ollama_cli env_http_down))"
    by (simp add: check_env_http_down)
  have "\<not> skipped env_ok [''--version'']"
    by (simp add: skipped_def run_env_ok)
  then have c: "UrlOpen probe_url \<notin> set (snd (check_ollama_cli env_ok))"
    using http_reached_iff [of env_ok] by (simp add: variants_def)
  from service_check_name_follows_path [of env_ok] c
  have 3: "\<exists>r. fst (check_ollama_cli env_ok) = Inr r \<and> field r ''name'' = Some ''ollama_cli''"
    by blast
  from service_check_name_follows_path [of env_http_down] b
  have "\<exists>r. fst (check_ollama_cli env_http_down) = Inr r
            \<and> field r ''name'' = Some ''ollama_http''"
    by blast
  then have 2: "\<exists>r. fst (check_ollama_cli env_http_down) = Inr r
            \<and> field r ''name'' = Some ''ollama_http'' \<and> field r ''status'' = Some ''error''"
    by (simp add: check_env_http_down field_format_result)
  have 1: "fst (check_ollama_cli env_http)
         = Inr (format_result ''ollama_http'' True ''HTTP 200 OK @ /api/version: 0.5.1'')"
    by (simp add: check_env_http)
  from a b c 1 2 3 show ?thesis by blast
qed

subsection \<open>The runner\<close>

lemma check_import_result:
  "\<exists>ok d. check_import env m dn = Inr (format_result (display_of m dn) ok d)"
  by (cases "import_module env m") (auto simp add: check_import_loaded check_import_failed)

lemma check_sqlite_result:
  "\<exists>ok d. check_sqlite env = Inr (format_result ''sqlite'' ok d)"
  by (auto simp add: check_sqlite_via_query split: sum.splits option.splits list.splits)

lemma status_valid_format_result: "status_valid (format_result n ok d)"
  by (simp add: status_valid_def field_format_result)

lemma main_collects:
  assumes "checks env = map Inr rs"
  shows "main env = Inr \<lparr>results = rs\<rparr>"
proof -
  from assms obtain r1 r2 r3 r4 r5 r6 r7 r8 where rs: "rs = [r1, r2, r3, r4, r5, r6, r7, r8]"
    by (auto simp add: checks_def map_eq_Cons_conv)
  with assms show ?thesis
    by (simp add: checks_def main_def append_result_def and_then_Inr)
qed

lemma checks_all_return:
  "\<exists>rs. checks env = map Inr rs \<and> list_all status_valid rs"
proof -
  obtain r1 where 1: "check_python env = Inr r1" "status_valid r1"
    using check_python_eq [of env] status_valid_format_result by auto
  obtain r2 where 2: "check_import env ''langchain'' (Some ''langchain'') = Inr r2" "status_valid r2"
    using check_import_result status_valid_format_result by metis
  obtain r3 where 3: "check_import env ''langchain_community'' (Some ''langchain-community'') = Inr r3"
      "status_valid r3"
    using check_import_result status_valid_format_result by metis
  obtain r4 where 4: "check_import env ''langchain_ollama'' (Some ''langchain-ollama'') = Inr r4"
      "status_valid r4"
    using check_import_result status_valid_format_result by metis
  obtain r5 where 5: "check_import env ''dotenv'' (Some ''python-dotenv'') = Inr r5" "status_valid r5"
    using check_import_result status_valid_format_result by metis
  obtain r6 where 6: "check_import env ''pypdf'' (Some ''pypdf'') = Inr r6" "status_valid r6"
    using check_import_result status_valid_format_result by metis
  obtain r7 where 7: "fst (check_ollama_cli env) = Inr r7" "status_valid r7"
    using check_ollama_cli_result [of env] status_valid_format_result by metis
  obtain r8 where 8: "check_sqlite env = Inr r8" "status_valid r8"
    using check_sqlite_result [of env] status_valid_format_result by metis
  have "checks env = map Inr [r1, r2, r3, r4, r5, r6, r7, r8]"
    using 1 2 3 4 5 6 7 8 by (simp add: checks_def)
  moreover have "list_all status_valid [r1, r2, r3, r4, r5, r6, r7, r8]"
    using 1 2 3 4 5 6 7 8 by simp
  ultimately show ?thesis by blast
qed

text \<open>
  C2. In every environment each of the eight checks of the fixed sequence returns (none
  raises) exactly one Result, whose status field is present and is "ok" or "error"; \<open>main\<close>
  returns the report that holds these eight Results in the order of the checks.
\<close>

theorem every_check_returns_one_result:
  "\<exists>rs. checks env = map Inr rs \<and> length rs = 8 \<and> list_all status_valid rs
        \<and> main env = Inr \<lparr>results = rs\<rparr>"
proof -
  obtain rs where rs: "checks env = map Inr rs" "list_all status_valid rs"
    using checks_all_return by blast
  have "length (checks env) = 8" by (simp add: checks_def)
  then have "length rs = 8" using rs(1) by simp
  then show ?thesis using rs main_collects [of env rs] by blast
qed


theorem every_check_returns_one_result_witness:
  "\<exists>rs. checks env_no_cli = map Inr rs \<and> length rs = 8 \<and> list_all status_valid rs
        \<and> main env_no_cli = Inr \<lparr>results = rs\<rparr>"
  by (rule every_check_returns_one_result [of env_no_cli])

lemma cli_ok_result:
  assumes "cli_ok env"
  shows "\<exists>d. fst (check_ollama_cli env) = Inr (format_result ''ollama_cli'' True d)"
proof -
  from assms consider
      (first) p where "run_ollama_cmd env [''--version''] = Inr p" "returncode p = 0"
    | (second) p where "skipped env [''--version'']"
        "run_ollama_cmd env [''version''] = Inr p" "returncode p = 0"
    by (auto simp add: cli_ok_def)
  then show ?thesis
  proof cases
    case first
    let ?d = "py_or (strip (py_or (py_or (stdout p) (stderr p)) []))
                (''ollama '' @ join '' '' [''--version''] @ '' OK'')"
    have v: "variants = [] @ [''--version''] # [[''version'']]" by (simp add: variants_def)
    have vb: "variant_body env [''--version''] =
                Inr (Return (format_result ''ollama_cli'' True ?d))"
      by (rule variant_body_zero [OF first])
    have "check_ollama_cli env =
            (Inr (format_result ''ollama_cli'' True ?d), run_events ([] @ [[''--version'']]))"
      by (rule check_ollama_cli_returned [OF v _ vb]) simp
    then have "fst (check_ollama_cli env) = Inr (format_result ''ollama_cli'' True ?d)"
      by simp
    then show ?thesis by blast
  next
    case second
    let ?d = "py_or (strip (py_or (py_or (stdout p) (stderr p)) []))
                (''ollama '' @ join '' '' [''version''] @ '' OK'')"
    have v: "variants = [[''--version'']] @ [''version''] # []" by (simp add: variants_def)
    have vb: "variant_body env [''version''] =
                Inr (Return (format_result ''ollama_cli'' True ?d))"
      by (rule variant_body_zero [OF second(2,3)])
    have "check_ollama_cli env =
            (Inr (format_result ''ollama_cli'' True ?d),
             run_events ([[''--version'']] @ [[''version'']]))"
      by (rule check_ollama_cli_returned [OF v _ vb]) (simp add: second(1))
    then have "fst (check_ollama_cli env) = Inr (format_result ''ollama_cli'' True ?d)"
      by simp
    then show ?thesis by blast
  qed
qed

lemma import_ok_result:
  assumes "import_module env m = Inr md" and "label \<noteq> []"
  shows "\<exists>d. check_import env m (Some label) = Inr (format_result label True d)"
proof -
  have "display_of m (Some label) = label"
    using assms(2) by (simp add: display_of_def)
  then show ?thesis
    using check_import_loaded [OF assms(1), of "Some label"] by metis
qed

lemma query_env_ok: "query_outcome env_ok = Inr (Some [SqlText ''ok''])"
  by (simp add: query_outcome_def env_ok_def good_connection_def and_then_def)

lemma main_env_old:
  "main env_old =
     Inr \<lparr>results =
       [format_result ''python'' False ''Python 3.8.18 detected (requires >= 3.9)'',
        format_result ''langchain'' True ''Import OK (version: 1.2.3)'',
        format_result ''langchain-community'' True ''Import OK (version: 1.2.3)'',
        format_result ''langchain-ollama'' True ''Import OK (version: 1.2.3)'',
        format_result ''python-dotenv'' True ''Import OK (version: 1.2.3)'',
        format_result ''pypdf'' True ''Import OK (version: 1.2.3)'',
        format_result ''ollama_cli'' True ''v0.1.0'',
        format_result ''sqlite'' True ''In-memory DB create/insert/select OK'']\<rparr>"
  by code_simp

text \<open>
  C4 (as amended). When the interpreter is at least 3.9, each of the five modules loads,
  the CLI exits 0 on a variant that the loop reaches, and the database returns the row
  \<open>("ok", ...)\<close>, \<open>main\<close> produces a report with eight results, each with status "ok", whose
  names are, in this order: python, langchain, langchain-community, langchain-ollama,
  python-dotenv, pypdf, ollama_cli, sqlite.
\<close>

theorem all_ok_report:
  assumes "at_least_3_9 env"
    and "list_all (\<lambda>m. \<exists>md. import_module env m = Inr md) modules"
    and "cli_ok env"
    and "\<exists>rest. query_outcome env = Inr (Some (SqlText ''ok'' # rest))"
  shows "\<exists>rs. main env = Inr \<lparr>results = rs\<rparr> \<and> length rs = 8
           \<and> list_all (\<lambda>r. field r ''status'' = Some ''ok'') rs
           \<and> map (\<lambda>r. field r ''name'') rs =
               map Some [''python'', ''langchain'', ''langchain-community'', ''langchain-ollama'',
                         ''python-dotenv'', ''pypdf'', ''ollama_cli'', ''sqlite'']"
proof -
  obtain d1 where 1: "check_python env = Inr (format_result ''python'' True d1)"
    using check_python_eq [of env] assms(1) by simp
  from assms(2) obtain m2 m3 m4 m5 m6 where
    m: "import_module env ''langchain'' = Inr m2"
       "import_module env ''langchain_community'' = Inr m3"
       "import_module env ''langchain_ollama'' = Inr m4"
       "import_module env ''dotenv'' = Inr m5"
       "import_module env ''pypdf'' = Inr m6"
    by (auto simp add: modules_def)
  obtain d2 where 2: "check_import env ''langchain'' (Some ''langchain'')
      = Inr (format_result ''langchain'' True d2)"
    using import_ok_result [OF m(1), of "''langchain''"] by auto
  obtain d3 where 3: "check_import env ''langchain_community'' (Some ''langchain-community'')
      = Inr (format_result ''langchain-community'' True d3)"
    using import_ok_result [OF m(2), of "''langchain-community''"] by auto
  obtain d4 where 4: "check_import env ''langchain_ollama'' (Some ''langchain-ollama'')
      = Inr (format_result ''langchain-ollama'' True d4)"
    using import_ok_result [OF m(3), of "''langchain-ollama''"] by auto
  obtain d5 where 5: "check_import env ''dotenv'' (Some ''python-dotenv'')
      = Inr (format_result ''python-dotenv'' True d5)"
    using import_ok_result [OF m(4), of "''python-dotenv''"] by auto
  obtain d6 where 6: "check_import env ''pypdf'' (Some ''pypdf'')
      = Inr (format_result ''pypdf'' True d6)"
    using import_ok_result [OF m(5), of "''pypdf''"] by auto
  obtain d7 where 7: "fst (check_ollama_cli env) = Inr (format_result ''ollama_cli'' True d7)"
    using cli_ok_result [OF assms(3)] by blast
  obtain d8 where 8: "check_sqlite env = Inr (format_result ''sqlite'' True d8)"
    using assms(4) by (auto simp add: check_sqlite_via_query)
  let ?rs = "[format_result ''python'' True d1, format_result ''langchain'' True d2,
              format_result ''langchain-community'' True d3,
              format_result ''langchain-ollama'' True d4,
              format_result ''python-dotenv'' True d5, format_result ''pypdf'' True d6,
              format_result ''ollama_cli'' True d7, format_result ''sqlite'' True d8]"
  have "checks env = map Inr ?rs"
    using 1 2 3 4 5 6 7 8 by (simp add: checks_def)
  then have a: "main env = Inr \<lparr>results = ?rs\<rparr>" by (rule main_collects)
  have b: "length ?rs = 8" by simp
  have c: "list_all (\<lambda>r. field r ''status'' = Some ''ok'') ?rs"
    by (simp add: field_format_result)
  have d: "map (\<lambda>r. field r ''name'') ?rs =
               map Some [''python'', ''langchain'', ''langchain-community'', ''langchain-ollama'',
                         ''python-dotenv'', ''pypdf'', ''ollama_cli'', ''sqlite'']"
    by (simp add: field_format_result)
  from a b c d show ?thesis by blast
qed

theorem all_ok_report_witness:
  "at_least_3_9 env_ok
   \<and> map (import_module env_ok) modules = replicate 5 (Inr \<lparr>version_attr = Some ''1.2.3''\<rparr>)
   \<and> cli_ok env_ok
   \<and> query_outcome env_ok = Inr (Some [SqlText ''ok''])
   \<and> (\<exists>rs. main env_ok = Inr \<lparr>results = rs\<rparr> \<and> length rs = 8
           \<and> list_all (\<lambda>r. field r ''status'' = Some ''ok'') rs
           \<and> map (\<lambda>r. field r ''name'') rs =
               map Some [''python'', ''langchain'', ''langchain-community'', ''langchain-ollama'',
                         ''python-dotenv'', ''pypdf'', ''ollama_cli'', ''sqlite''])"
proof -
  have a: "at_least_3_9 env_ok" by (simp add: at_least_3_9_def env_ok_def)
  have b: "map (import_module env_ok) modules = replicate 5 (Inr \<lparr>version_attr = Some ''1.2.3''\<rparr>)"
    by (simp add: modules_def env_ok_def numeral_eq_Suc)
  have b': "list_all (\<lambda>m. \<exists>md. import_module env_ok m = Inr md) modules"
    by (simp add: modules_def env_ok_def)
  have c: "cli_ok env_ok" by (simp add: cli_ok_def run_env_ok)
  have d: "\<exists>rest. query_outcome env_ok = Inr (Some (SqlText ''ok'' # rest))"
    by (simp add: query_env_ok)
  from all_ok_report [OF a b' c d] a b c query_env_ok show ?thesis by blast
qed

theorem all_ok_report_counterexample:
  "map (import_module env_old) modules = replicate 5 (Inr \<lparr>version_attr = Some ''1.2.3''\<rparr>)
   \<and> run_ollama_cmd env_old [''--version'']
       = Inr \<lparr>returncode = 0, stdout = ''v0.1.0'' @ [CHR 0x0A], stderr = []\<rparr>
   \<and> query_outcome env_old = Inr (Some [SqlText ''ok''])
   \<and> main env_old =
     Inr \<lparr>results =
       [format_result ''python'' False ''Python 3.8.18 detected (requires >= 3.9)'',
        format_result ''langchain'' True ''Import OK (version: 1.2.3)'',
        format_result ''langchain-community'' True ''Import OK (version: 1.2.3)'',
        format_result ''langchain-ollama'' True ''Import OK (version: 1.2.3)'',
        format_result ''python-dotenv'' True ''Import OK (version: 1.2.3)'',
        format_result ''pypdf'' True ''Import OK (version: 1.2.3)'',
        format_result ''ollama_cli'' True ''v0.1.0'',
        format_result ''sqlite'' True ''In-memory DB create/insert/select OK'']\<rparr>
   \<and> field (format_result ''python'' False ''Python 3.8.18 detected (requires >= 3.9)'')
         ''status'' = Some ''error''"
proof -
  have a: "map (import_module env_old) modules
             = replicate 5 (Inr \<lparr>version_attr = Some ''1.2.3''\<rparr>)"
    by (simp add: modules_def env_old_def env_ok_def numeral_eq_Suc)
  have b: "run_ollama_cmd env_old [''--version'']
       = Inr \<lparr>returncode = 0, stdout = ''v0.1.0'' @ [CHR 0x0A], stderr = []\<rparr>"
    by (simp add: run_ollama_cmd_def env_old_def env_ok_def)
  have c: "query_outcome env_old = Inr (Some [SqlText ''ok''])"
    by (simp add: query_outcome_def env_old_def env_ok_def good_connection_def and_then_def)
  from a b c main_env_old show ?thesis
    by (simp add: field_format_result)
qed

lemma try_variants_cong:
  "list_all (\<lambda>v. run_ollama_cmd e1 v = run_ollama_cmd e2 v) vs \<Longrightarrow>
   try_variants e1 vs = try_variants e2 vs"
proof (induction vs)
  case Nil
  show ?case by simp
next
  case (Cons v vs)
  then have vb: "variant_body e1 v = variant_body e2 v"
    and ih: "try_variants e1 vs = try_variants e2 vs"
    by (simp_all add: variant_body_def)
  show ?case
    unfolding try_variants.simps vb ih by (rule refl)
qed

lemma probe_ollama_http_cong:
  "urlopen e1 probe_url = urlopen e2 probe_url \<Longrightarrow> probe_ollama_http e1 = probe_ollama_http e2"
  by (simp add: probe_ollama_http_def)

lemma check_ollama_cli_cong:
  "list_all (\<lambda>v. run_ollama_cmd e1 v = run_ollama_cmd e2 v) variants \<Longrightarrow>
   urlopen e1 probe_url = urlopen e2 probe_url \<Longrightarrow>
   check_ollama_cli e1 = check_ollama_cli e2"
proof -
  assume a: "list_all (\<lambda>v. run_ollama_cmd e1 v = run_ollama_cmd e2 v) variants"
    and b: "urlopen e1 probe_url = urlopen e2 probe_url"
  have tv: "try_variants e1 variants = try_variants e2 variants"
    using a by (rule try_variants_cong)
  have pr: "probe_ollama_http e1 = probe_ollama_http e2"
    using b by (rule probe_ollama_http_cong)
  show ?thesis
    unfolding check_ollama_cli_def tv pr by (rule refl)
qed

text \<open>
  C9. Two runs in environments that agree on everything the run observes (the interpreter's
  version, the outcome of the five imports, of the two CLI invocations, of the HTTP request
  and of opening the database) produce the same report: the same Results, with the same
  names, statuses and details, in the same order; and the service check makes the same
  external calls.
\<close>

theorem same_environment_same_report:
  assumes "env_agree e1 e2"
  shows "main e1 = main e2 \<and> checks e1 = checks e2
         \<and> snd (check_ollama_cli e1) = snd (check_ollama_cli e2)"
proof -
  have py: "check_python e1 = check_python e2"
    using assms by (simp add: env_agree_def check_python_def)
  have im: "check_import e1 ''langchain'' dn = check_import e2 ''langchain'' dn"
    "check_import e1 ''langchain_community'' dn = check_import e2 ''langchain_community'' dn"
    "check_import e1 ''langchain_ollama'' dn = check_import e2 ''langchain_ollama'' dn"
    "check_import e1 ''dotenv'' dn = check_import e2 ''dotenv'' dn"
    "check_import e1 ''pypdf'' dn = check_import e2 ''pypdf'' dn" for dn
    using assms by (simp_all add: env_agree_def modules_def check_import_def)
  have cli: "check_ollama_cli e1 = check_ollama_cli e2"
    using assms by (intro check_ollama_cli_cong) (simp_all add: env_agree_def)
  have sq: "check_sqlite e1 = check_sqlite e2"
    using assms by (simp add: env_agree_def check_sqlite_def)
  show ?thesis
    unfolding main_def checks_def py im cli sq by simp
qed

theorem same_environment_same_report_witness:
  "env_agree env_ok env_other \<and> env_ok \<noteq> env_other \<and> main env_ok = main env_other"
proof -
  have a: "env_agree env_ok env_other"
    by (simp add: env_agree_def env_other_def env_ok_def modules_def variants_def
          run_ollama_cmd_def)
  have "import_module env_ok ''numpy'' \<noteq> import_module env_other ''numpy''"
    by (simp add: env_other_def env_ok_def)
  then have b: "env_ok \<noteq> env_other" by auto
  from same_environment_same_report [OF a] a b show ?thesis by blast
qed

end
